theory Spec2Isabelle
  imports Complex_Main
begin

section \<open>Python values used by the APV calculator\<close>

text \<open>
  The calculator of \<^verbatim>\<open>apv_calculator.py\<close> works on Python floats. A float is modelled
  as a finite real or one of the three special values of IEEE arithmetic. The value of
  a finite result is idealised: it is not rounded, and \<^verbatim>\<open>+\<close>, \<^verbatim>\<open>*\<close> and \<^verbatim>\<open>/\<close> keep a finite
  result finite. The exceptions are modelled: \<^verbatim>\<open>/\<close> raises on a zero divisor, and \<^verbatim>\<open>**\<close>
  raises when the power leaves the range of a double and gives 0.0 when it rounds to
  zero. The two zeros are one value (they compare equal in Python, and no operation
  used here tells them apart).
  An argument that may be \<^verbatim>\<open>None\<close> has type \<open>pyfloat option\<close>.
\<close>

datatype pyfloat = Fin real | PInf | NInf | NaN

datatype py_exception =
    ZeroDivisionError
  | OverflowError
  | IndexError
  | KeyError string
  | ProviderError string
  | Exception string

type_synonym 'a result = "py_exception + 'a"

fun is_finite :: "pyfloat \<Rightarrow> bool" where
  "is_finite (Fin x) = True"
| "is_finite PInf = False"
| "is_finite NInf = False"
| "is_finite NaN = False"

text \<open>\<^verbatim>\<open>-x\<close> and \<^verbatim>\<open>abs(x)\<close> on a float.\<close>

fun pf_neg :: "pyfloat \<Rightarrow> pyfloat" where
  "pf_neg (Fin x) = Fin (- x)"
| "pf_neg PInf = NInf"
| "pf_neg NInf = PInf"
| "pf_neg NaN = NaN"

fun pf_abs :: "pyfloat \<Rightarrow> pyfloat" where
  "pf_abs (Fin x) = Fin \<bar>x\<bar>"
| "pf_abs PInf = PInf"
| "pf_abs NInf = PInf"
| "pf_abs NaN = NaN"

text \<open>\<^verbatim>\<open>x + y\<close>: opposite infinities give NaN.\<close>

fun pf_add :: "pyfloat \<Rightarrow> pyfloat \<Rightarrow> pyfloat" where
  "pf_add NaN y = NaN"
| "pf_add x NaN = NaN"
| "pf_add (Fin x) (Fin y) = Fin (x + y)"
| "pf_add PInf NInf = NaN"
| "pf_add NInf PInf = NaN"
| "pf_add PInf y = PInf"
| "pf_add NInf y = NInf"
| "pf_add (Fin x) PInf = PInf"
| "pf_add (Fin x) NInf = NInf"

definition pf_sub :: "pyfloat \<Rightarrow> pyfloat \<Rightarrow> pyfloat" where
  "pf_sub x y = pf_add x (pf_neg y)"

text \<open>An infinity with the sign of a non-zero real.\<close>

definition signed_inf :: "real \<Rightarrow> pyfloat" where
  "signed_inf s = (if 0 < s then PInf else NInf)"

text \<open>\<^verbatim>\<open>x * y\<close>: an infinity times zero is NaN.\<close>

fun pf_mul :: "pyfloat \<Rightarrow> pyfloat \<Rightarrow> pyfloat" where
  "pf_mul NaN y = NaN"
| "pf_mul x NaN = NaN"
| "pf_mul (Fin x) (Fin y) = Fin (x * y)"
| "pf_mul PInf PInf = PInf"
| "pf_mul PInf NInf = NInf"
| "pf_mul NInf PInf = NInf"
| "pf_mul NInf NInf = PInf"
| "pf_mul PInf (Fin y) = (if y = 0 then NaN else signed_inf y)"
| "pf_mul NInf (Fin y) = (if y = 0 then NaN else signed_inf (- y))"
| "pf_mul (Fin x) PInf = (if x = 0 then NaN else signed_inf x)"
| "pf_mul (Fin x) NInf = (if x = 0 then NaN else signed_inf (- x))"

text \<open>
  \<^verbatim>\<open>x / y\<close>: Python raises \<^verbatim>\<open>ZeroDivisionError\<close> for a zero divisor, whatever the
  dividend is; otherwise the IEEE result.
\<close>

fun pf_quot :: "pyfloat \<Rightarrow> pyfloat \<Rightarrow> pyfloat" where
  "pf_quot NaN y = NaN"
| "pf_quot x NaN = NaN"
| "pf_quot (Fin x) (Fin y) = Fin (x / y)"
| "pf_quot (Fin x) PInf = Fin 0"
| "pf_quot (Fin x) NInf = Fin 0"
| "pf_quot PInf (Fin y) = signed_inf y"
| "pf_quot NInf (Fin y) = signed_inf (- y)"
| "pf_quot PInf y = NaN"
| "pf_quot NInf y = NaN"

definition pf_truediv :: "pyfloat \<Rightarrow> pyfloat \<Rightarrow> pyfloat result" where
  "pf_truediv x y = (if y = Fin 0 then Inl ZeroDivisionError else Inr (pf_quot x y))"

text \<open>
  \<^verbatim>\<open>x ** n\<close> for a float \<open>x\<close> and a non-negative integer \<open>n\<close>. CPython calls the C
  function \<^verbatim>\<open>pow\<close> and raises \<^verbatim>\<open>OverflowError\<close> when a finite base gives an infinite
  result, that is when the power rounds to an infinity: its magnitude is at least
  \<open>2^1024 - 2^970\<close>, half a unit in the last place above the largest double. A power
  of magnitude at most \<open>2^-1075\<close>, half the smallest double, rounds to 0.0 and no
  exception is raised.
\<close>

definition overflow_threshold :: real where
  "overflow_threshold = 2 ^ 1024 - 2 ^ 970"

definition underflow_threshold :: real where
  "underflow_threshold = 1 / 2 ^ 1075"

fun pf_pow :: "pyfloat \<Rightarrow> nat \<Rightarrow> pyfloat result" where
  "pf_pow x 0 = Inr (Fin 1)"
| "pf_pow (Fin x) n =
     (if overflow_threshold \<le> \<bar>x ^ n\<bar> then Inl OverflowError
      else if \<bar>x ^ n\<bar> \<le> underflow_threshold then Inr (Fin 0)
      else Inr (Fin (x ^ n)))"
| "pf_pow PInf n = Inr PInf"
| "pf_pow NInf n = Inr (if even n then PInf else NInf)"
| "pf_pow NaN n = Inr NaN"


text \<open>\<^verbatim>\<open>pd.isna(cf)\<close> on a scalar: true for \<^verbatim>\<open>None\<close> and for NaN, false for an infinity.\<close>

fun pd_isna :: "pyfloat option \<Rightarrow> bool" where
  "pd_isna None = True"
| "pd_isna (Some NaN) = True"
| "pd_isna (Some x) = False"

section \<open>Valuation engine\<close>

subsection \<open>\<^verbatim>\<open>calculate_npv\<close>\<close>

text \<open>
  The first loop of \<^verbatim>\<open>calculate_npv\<close>: every entry that is neither \<^verbatim>\<open>None\<close> nor NaN
  is appended to \<^verbatim>\<open>clean_cash_flows\<close> as \<^verbatim>\<open>abs(float(cf))\<close>.
\<close>

fun clean_loop :: "pyfloat list \<Rightarrow> pyfloat option list \<Rightarrow> pyfloat list" where
  "clean_loop clean_cash_flows [] = clean_cash_flows"
| "clean_loop clean_cash_flows (cf # cash_flows) =
     (case cf of
        None \<Rightarrow> clean_loop clean_cash_flows cash_flows
      | Some x \<Rightarrow>
          if \<not> pd_isna cf then clean_loop (clean_cash_flows @ [pf_abs x]) cash_flows
          else clean_loop clean_cash_flows cash_flows)"

text \<open>
  The second loop: \<^verbatim>\<open>npv += cf / ((1 + discount_rate) ** (t + 1))\<close> over
  \<^verbatim>\<open>enumerate(clean_cash_flows)\<close>. The power is evaluated before the division; an
  exception of either leaves the loop.
\<close>

fun npv_loop :: "pyfloat \<Rightarrow> nat \<Rightarrow> pyfloat \<Rightarrow> pyfloat list \<Rightarrow> pyfloat result" where
  "npv_loop discount_rate t npv [] = Inr npv"
| "npv_loop discount_rate t npv (cf # rest) =
     (case pf_pow (pf_add (Fin 1) discount_rate) (t + 1) of
        Inl e \<Rightarrow> Inl e
      | Inr p \<Rightarrow>
          (case pf_truediv cf p of
             Inl e \<Rightarrow> Inl e
           | Inr q \<Rightarrow> npv_loop discount_rate (t + 1) (pf_add npv q) rest))"

definition calculate_npv :: "pyfloat option list \<Rightarrow> pyfloat \<Rightarrow> pyfloat result" where
  "calculate_npv cash_flows discount_rate =
     (let clean_cash_flows = clean_loop [] cash_flows in
      if clean_cash_flows = [] then Inr (Fin 0)
      else npv_loop discount_rate 0 (Fin 0) clean_cash_flows)"

subsection \<open>\<^verbatim>\<open>calculate_tax_shield\<close>, \<^verbatim>\<open>calculate_apv\<close>, \<^verbatim>\<open>sensitivity_analysis\<close>\<close>

definition calculate_tax_shield ::
    "pyfloat option \<Rightarrow> pyfloat option \<Rightarrow> pyfloat option \<Rightarrow> pyfloat result" where
  "calculate_tax_shield debt tax_rate cost_of_debt =
     (case (debt, tax_rate, cost_of_debt) of
        (Some d, Some tr, Some cod) \<Rightarrow>
          if cod = Fin 0 then Inr (pf_mul d tr)
          else (case pf_truediv (Fin 1) (pf_add (Fin 1) cod) of
                  Inl e \<Rightarrow> Inl e
                | Inr q \<Rightarrow> Inr (pf_mul (pf_mul d tr) (pf_sub (Fin 1) q)))
      | _ \<Rightarrow> Inr (Fin 0))"

definition calculate_apv :: "pyfloat \<Rightarrow> pyfloat \<Rightarrow> pyfloat" where
  "calculate_apv npv tax_shield = pf_add npv tax_shield"

text \<open>The result of \<^verbatim>\<open>sensitivity_analysis\<close> is a dictionary with two keys.\<close>

definition sensitivity_analysis :: "pyfloat \<Rightarrow> pyfloat list \<Rightarrow> (string \<rightharpoonup> pyfloat list)" where
  "sensitivity_analysis base_value variations =
     [''variations'' \<mapsto> variations,
      ''values'' \<mapsto> map (\<lambda>v. pf_mul base_value (pf_add (Fin 1) v)) variations]"

section \<open>Financial data adapter\<close>

text \<open>
  A statement of the provider is a table indexed by line-item label; a row holds one
  value per reporting period, most recent first (a missing cell is NaN). Row labels are
  taken to be unique, so that \<^verbatim>\<open>table.loc[label]\<close> is one row.
\<close>

type_synonym table = "string \<rightharpoonup> pyfloat list"

text \<open>\<^verbatim>\<open>label in table.index\<close>, \<^verbatim>\<open>table.loc[label]\<close> and \<^verbatim>\<open>row.iloc[0]\<close>.\<close>

definition in_index :: "string \<Rightarrow> table \<Rightarrow> bool" where
  "in_index label tbl = (tbl label \<noteq> None)"

definition loc :: "table \<Rightarrow> string \<Rightarrow> pyfloat list result" where
  "loc tbl label = (case tbl label of None \<Rightarrow> Inl (KeyError label) | Some row \<Rightarrow> Inr row)"

definition iloc0 :: "pyfloat list \<Rightarrow> pyfloat result" where
  "iloc0 row = (case row of [] \<Rightarrow> Inl IndexError | x # _ \<Rightarrow> Inr x)"

text \<open>
  The provider is a parameter of the model: \<^verbatim>\<open>yf.Ticker(ticker)\<close> gives an object whose
  three statement properties are read in turn, and each of these steps may raise.
\<close>

record stock =
  get_balance_sheet :: "table result"
  get_financials :: "table result"
  get_cashflow :: "table result"

type_synonym provider = "string \<Rightarrow> stock result"

text \<open>The dictionary returned by \<^verbatim>\<open>get_financial_data\<close>, one field per key.\<close>

record snapshot =
  operating_cashflow :: "pyfloat list"
  total_debt :: pyfloat
  effective_tax_rate :: pyfloat
  balance_sheet :: table
  income_stmt :: table
  cashflow :: table

text \<open>\<^verbatim>\<open>str(e)\<close> for the exceptions of the model.\<close>

fun py_str :: "py_exception \<Rightarrow> string" where
  "py_str ZeroDivisionError = ''float division by zero''"
| "py_str OverflowError =
     ''(34, '' @ [CHR 0x27] @ ''Numerical result out of range'' @ [CHR 0x27] @ '')''"
| "py_str IndexError = ''single positional indexer is out-of-bounds''"
| "py_str (KeyError k) = [CHR 0x27] @ k @ [CHR 0x27]"
| "py_str (ProviderError m) = m"
| "py_str (Exception m) = m"

text \<open>Lines 78 to 83: the ticker object and its three statements.\<close>

definition fetch_statements :: "provider \<Rightarrow> string \<Rightarrow> (table \<times> table \<times> table) result" where
  "fetch_statements yf_Ticker ticker =
     (case yf_Ticker ticker of
        Inl e \<Rightarrow> Inl e
      | Inr stock \<Rightarrow>
          (case get_balance_sheet stock of
             Inl e \<Rightarrow> Inl e
           | Inr bs \<Rightarrow>
               (case get_financials stock of
                  Inl e \<Rightarrow> Inl e
                | Inr inc \<Rightarrow>
                    (case get_cashflow stock of
                       Inl e \<Rightarrow> Inl e
                     | Inr cf \<Rightarrow> Inr (bs, inc, cf)))))"

text \<open>Lines 86 to 91: the operating cash flows, with the two labels and the default.\<close>

definition extract_operating_cashflow :: "table \<Rightarrow> pyfloat list result" where
  "extract_operating_cashflow cf =
     (if in_index ''Operating Cash Flow'' cf then loc cf ''Operating Cash Flow''
      else if in_index ''Total Cash From Operating Activities'' cf
           then loc cf ''Total Cash From Operating Activities''
      else Inr (replicate 4 (Fin 0)))"

text \<open>Lines 94 to 99: the first debt label found, most recent column.\<close>

definition debt_labels :: "string list" where
  "debt_labels = [''Total Debt'', ''Long Term Debt'', ''Total Long Term Debt'']"

fun debt_loop :: "table \<Rightarrow> pyfloat \<Rightarrow> string list \<Rightarrow> pyfloat result" where
  "debt_loop bs debt [] = Inr debt"
| "debt_loop bs debt (label # labels) =
     (if in_index label bs
      then (case loc bs label of Inl e \<Rightarrow> Inl e | Inr row \<Rightarrow> iloc0 row)
      else debt_loop bs debt labels)"

text \<open>Lines 102 to 107: the effective tax rate of the most recent column.\<close>

definition extract_effective_tax_rate :: "table \<Rightarrow> pyfloat result" where
  "extract_effective_tax_rate inc =
     (if in_index ''Income Tax Expense'' inc \<and> in_index ''Pretax Income'' inc then
        (case loc inc ''Income Tax Expense'' of
           Inl e \<Rightarrow> Inl e
         | Inr tax_row \<Rightarrow>
             (case iloc0 tax_row of
                Inl e \<Rightarrow> Inl e
              | Inr tax_expense \<Rightarrow>
                  (case loc inc ''Pretax Income'' of
                     Inl e \<Rightarrow> Inl e
                   | Inr pretax_row \<Rightarrow>
                       (case iloc0 pretax_row of
                          Inl e \<Rightarrow> Inl e
                        | Inr pretax_income \<Rightarrow>
                            if pretax_income \<noteq> Fin 0 then pf_truediv tax_expense pretax_income
                            else Inr (Fin (1 / 4))))))
      else Inr (Fin (1 / 4)))"

text \<open>The body of the \<^verbatim>\<open>try\<close> block, and the handler that wraps every exception.\<close>

definition try_block :: "provider \<Rightarrow> string \<Rightarrow> snapshot result" where
  "try_block yf_Ticker ticker =
     (case fetch_statements yf_Ticker ticker of
        Inl e \<Rightarrow> Inl e
      | Inr (bs, inc, cf) \<Rightarrow>
          (case extract_operating_cashflow cf of
             Inl e \<Rightarrow> Inl e
           | Inr ocf \<Rightarrow>
               (case debt_loop bs (Fin 0) debt_labels of
                  Inl e \<Rightarrow> Inl e
                | Inr debt \<Rightarrow>
                    (case extract_effective_tax_rate inc of
                       Inl e \<Rightarrow> Inl e
                     | Inr rate \<Rightarrow>
                         Inr \<lparr>operating_cashflow = ocf, total_debt = debt,
                              effective_tax_rate = rate, balance_sheet = bs,
                              income_stmt = inc, cashflow = cf\<rparr>))))"

definition get_financial_data :: "provider \<Rightarrow> string \<Rightarrow> snapshot result" where
  "get_financial_data yf_Ticker ticker =
     (case try_block yf_Ticker ticker of
        Inl e \<Rightarrow>
          Inl (Exception (''Errore nel recupero dei dati per '' @ ticker @ '': '' @ py_str e))
      | Inr snap \<Rightarrow> Inr snap)"


section \<open>An example provider\<close>

text \<open>
  A provider that knows one ticker, with statements of two or three periods, and the
  snapshot the adapter builds from them; a second income statement has a pretax income
  of zero.
\<close>

definition example_cashflow :: table where
  "example_cashflow = [''Total Cash From Operating Activities'' \<mapsto> [Fin 120, Fin 100, NaN]]"

definition example_income :: table where
  "example_income = [''Income Tax Expense'' \<mapsto> [Fin 21, Fin 18],
                     ''Pretax Income'' \<mapsto> [Fin 100, Fin 90]]"

definition example_income_zero :: table where
  "example_income_zero = [''Income Tax Expense'' \<mapsto> [Fin 21, Fin 18],
                          ''Pretax Income'' \<mapsto> [Fin 0, Fin 90]]"

definition example_balance :: table where
  "example_balance = [''Long Term Debt'' \<mapsto> [Fin 500, Fin 450]]"

definition example_provider :: provider where
  "example_provider ticker =
     (if ticker = ''ACME''
      then Inr \<lparr>get_balance_sheet = Inr example_balance,
                get_financials = Inr example_income,
                get_cashflow = Inr example_cashflow\<rparr>
      else Inl (ProviderError ''No data found''))"



definition example_snapshot :: snapshot where
  "example_snapshot =
     \<lparr>operating_cashflow = [Fin 120, Fin 100, NaN], total_debt = Fin 500,
      effective_tax_rate = Fin (21 / 100), balance_sheet = example_balance,
      income_stmt = example_income, cashflow = example_cashflow\<rparr>"

section \<open>Notions of the specification\<close>

text \<open>
  The cleaned series in the specification's words, for a series whose numeric entries
  are finite: every missing or NaN entry is dropped and the absolute value of each
  remaining entry is kept, in order.
\<close>

fun spec_cleaned :: "pyfloat option list \<Rightarrow> real list" where
  "spec_cleaned [] = []"
| "spec_cleaned (Some (Fin x) # cfs) = \<bar>x\<bar> # spec_cleaned cfs"
| "spec_cleaned (c # cfs) = spec_cleaned cfs"

text \<open>
  Negating the entries whose position is in \<open>S\<close>; a missing entry has no sign and
  stays missing.
\<close>

definition negate_subset :: "nat set \<Rightarrow> pyfloat option list \<Rightarrow> pyfloat option list" where
  "negate_subset S cfs =
     map (\<lambda>(i, c). if i \<in> S then map_option pf_neg c else c) (enumerate 0 cfs)"

text \<open>
  The discount factor of position \<open>t\<close> is usable when the power \<open>(1 + r)^(t+1)\<close> is
  computed without an exception and is not zero; \<open>discount_factors_ok r n\<close> says so for
  the first \<open>n\<close> positions.
\<close>

definition factor_ok :: "pyfloat \<Rightarrow> nat \<Rightarrow> bool" where
  "factor_ok discount_rate t =
     (case pf_pow (pf_add (Fin 1) discount_rate) (t + 1) of
        Inl e \<Rightarrow> False
      | Inr p \<Rightarrow> p \<noteq> Fin 0)"

definition discount_factors_ok :: "pyfloat \<Rightarrow> nat \<Rightarrow> bool" where
  "discount_factors_ok discount_rate n = list_all (factor_ok discount_rate) [0..<n]"

text \<open>What one entry contributes to the cleaned series.\<close>

fun clean_entry :: "pyfloat option \<Rightarrow> pyfloat list" where
  "clean_entry None = []"
| "clean_entry (Some NaN) = []"
| "clean_entry (Some x) = [pf_abs x]"

section \<open>The two loops of \<^verbatim>\<open>calculate_npv\<close>\<close>

lemma clean_loop_acc: "clean_loop acc cfs = acc @ clean_loop [] cfs"
proof (induction cfs arbitrary: acc)
  case Nil
  show ?case by simp
next
  case (Cons cf cfs)
  show ?case
  proof (cases cf)
    case None
    then show ?thesis using Cons.IH [of acc] by simp
  next
    case (Some x)
    show ?thesis
      using Cons.IH [of "acc @ [pf_abs x]"] Cons.IH [of "[pf_abs x]"] Cons.IH [of acc] Some
      by simp
  qed
qed

lemma clean_loop_Cons: "clean_loop [] (cf # cfs) = clean_entry cf @ clean_loop [] cfs"
proof (cases cf)
  case None
  then show ?thesis by simp
next
  case (Some x)
  then show ?thesis using clean_loop_acc [of "[pf_abs x]" cfs] by (cases x) simp_all
qed

lemma clean_loop_concat: "clean_loop [] cfs = concat (map clean_entry cfs)"
  by (induction cfs) (simp_all add: clean_loop_Cons del: clean_loop.simps(2))

lemma clean_entry_filter:
  "clean_entry c = (if c \<noteq> None \<and> c \<noteq> Some NaN then [pf_abs (the c)] else [])"
  by (cases c rule: clean_entry.cases) simp_all

lemma clean_loop_filter:
  "clean_loop [] cfs = map (\<lambda>c. pf_abs (the c)) (filter (\<lambda>c. c \<noteq> None \<and> c \<noteq> Some NaN) cfs)"
  by (induction cfs) (simp_all add: clean_loop_Cons clean_entry_filter del: clean_loop.simps(2))

lemma clean_loop_spec_cleaned:
  "\<forall>c \<in> set cfs. c \<noteq> Some PInf \<and> c \<noteq> Some NInf \<Longrightarrow>
   clean_loop [] cfs = map Fin (spec_cleaned cfs)"
  by (induction cfs rule: spec_cleaned.induct)
    (simp_all add: clean_loop_Cons del: clean_loop.simps(2))

lemma clean_entry_range:
  "x \<in> set (clean_entry c) \<Longrightarrow> x = PInf \<or> (\<exists>v\<ge>0. x = Fin v)"
  by (cases c rule: clean_entry.cases) auto

lemma clean_loop_range:
  "x \<in> set (clean_loop [] cfs) \<Longrightarrow> x = PInf \<or> (\<exists>v\<ge>0. x = Fin v)"
  by (auto simp: clean_loop_concat dest: clean_entry_range)

lemma spec_cleaned_nonneg: "v \<in> set (spec_cleaned cfs) \<Longrightarrow> 0 \<le> v"
  by (induction cfs rule: spec_cleaned.induct) auto

lemma clean_entry_neg: "clean_entry (map_option pf_neg c) = clean_entry c"
proof (cases c)
  case None
  then show ?thesis by simp
next
  case (Some x)
  then show ?thesis by (cases x) simp_all
qed

lemma clean_loop_negate_subset: "clean_loop [] (negate_subset S cfs) = clean_loop [] cfs"
proof -
  have "map clean_entry (negate_subset S cfs) = map (clean_entry \<circ> snd) (enumerate 0 cfs)"
    by (auto simp: negate_subset_def clean_entry_neg)
  also have "\<dots> = map clean_entry (map snd (enumerate 0 cfs))" by (simp only: map_map)
  also have "\<dots> = map clean_entry cfs" by (simp only: map_snd_enumerate)
  finally show ?thesis by (simp add: clean_loop_concat)
qed

section \<open>Discount factors and the exceptions of \<^verbatim>\<open>calculate_npv\<close>\<close>

lemma overflow_threshold_pos: "0 < overflow_threshold"
  by (simp add: overflow_threshold_def)

lemma underflow_threshold_pos: "0 < underflow_threshold"
  by (simp add: underflow_threshold_def)

lemma pf_pow_Inl: "pf_pow x n = Inl e \<Longrightarrow> e = OverflowError"
  by (cases "(x, n)" rule: pf_pow.cases) (auto split: if_splits)

lemma pf_pow_zero_base: "pf_pow (Fin 0) (Suc n) = Inr (Fin 0)"
  using overflow_threshold_pos underflow_threshold_pos by simp

lemma factor_ok_iff:
  "factor_ok d t \<longleftrightarrow> (\<exists>p. pf_pow (pf_add (Fin 1) d) (t + 1) = Inr p \<and> p \<noteq> Fin 0)"
  by (auto simp: factor_ok_def split: sum.splits)

lemma discount_factors_ok_iff: "discount_factors_ok d n \<longleftrightarrow> (\<forall>t<n. factor_ok d t)"
  by (auto simp: discount_factors_ok_def list_all_iff)

lemma factor_not_ok_minus_one: "\<not> factor_ok (Fin (- 1)) t"
  using pf_pow_zero_base [of t] by (simp add: factor_ok_def)

lemma npv_loop_fails:
  "xs \<noteq> [] \<Longrightarrow> npv_loop (Fin (- 1)) t npv xs = Inl ZeroDivisionError"
  using pf_pow_zero_base [of t] by (cases xs) (simp_all add: pf_truediv_def)

lemma all_less_Suc_shift: "(\<forall>i<Suc n. P i) \<longleftrightarrow> P 0 \<and> (\<forall>i<n. P (Suc i))"
  by (auto simp: less_Suc_eq_0_disj)

lemma npv_loop_Inr_iff:
  "(\<exists>v. npv_loop d t npv xs = Inr v) \<longleftrightarrow> (\<forall>i<length xs. factor_ok d (t + i))"
proof (induction xs arbitrary: t npv)
  case Nil
  show ?case by simp
next
  case (Cons x xs)
  show ?case
  proof (cases "factor_ok d t")
    case False
    then have "\<not> (\<forall>i<length (x # xs). factor_ok d (t + i))" by auto
    moreover have "\<not> (\<exists>v. npv_loop d t npv (x # xs) = Inr v)"
      using False by (auto simp: factor_ok_def pf_truediv_def split: sum.splits)
    ultimately show ?thesis by blast
  next
    case True
    then obtain p where p: "pf_pow (pf_add (Fin 1) d) (t + 1) = Inr p" "p \<noteq> Fin 0"
      unfolding factor_ok_iff by blast
    have "(\<exists>v. npv_loop d t npv (x # xs) = Inr v) \<longleftrightarrow>
          (\<exists>v. npv_loop d (Suc t) (pf_add npv (pf_quot x p)) xs = Inr v)"
      using p by (simp add: pf_truediv_def)
    also have "\<dots> \<longleftrightarrow> (\<forall>i<length xs. factor_ok d (Suc t + i))" by (rule Cons.IH)
    also have "\<dots> \<longleftrightarrow> (\<forall>i<length (x # xs). factor_ok d (t + i))"
      using True by (simp add: all_less_Suc_shift)
    finally show ?thesis .
  qed
qed

lemma npv_loop_errors:
  "npv_loop d t npv xs = Inl e \<Longrightarrow> e = ZeroDivisionError \<or> e = OverflowError"
proof (induction xs arbitrary: t npv)
  case Nil
  then show ?case by simp
next
  case (Cons x xs)
  then show ?case
    by (auto simp: pf_truediv_def split: sum.splits if_splits dest: pf_pow_Inl)
qed

lemma npv_loop_fold:
  "length ps = length xs \<Longrightarrow>
   \<forall>i<length xs. pf_pow (pf_add (Fin 1) d) (t + i + 1) = Inr (ps ! i) \<and> ps ! i \<noteq> Fin 0 \<Longrightarrow>
   npv_loop d t npv xs = Inr (foldl pf_add npv (map2 pf_quot xs ps))"
proof (induction xs arbitrary: ps t npv)
  case Nil
  then show ?case by simp
next
  case (Cons x xs)
  then obtain p ps' where ps: "ps = p # ps'" by (cases ps) auto
  have p: "pf_pow (pf_add (Fin 1) d) (t + 1) = Inr p" "p \<noteq> Fin 0"
    using Cons.prems(2) ps by auto
  have rest: "\<forall>i<length xs. pf_pow (pf_add (Fin 1) d) (Suc t + i + 1) = Inr (ps' ! i) \<and> ps' ! i \<noteq> Fin 0"
    using Cons.prems(2) ps by (auto simp: all_less_Suc_shift)
  have len: "length ps' = length xs" using Cons.prems(1) ps by simp
  show ?case
    using Cons.IH [OF len rest, of "pf_add npv (pf_quot x p)"] p ps
    by (simp add: pf_truediv_def)
qed

lemma calculate_npv_Inr_iff:
  "(\<exists>v. calculate_npv cfs d = Inr v) \<longleftrightarrow> discount_factors_ok d (length (clean_loop [] cfs))"
  using npv_loop_Inr_iff [of d 0 "Fin 0" "clean_loop [] cfs"]
  by (cases "clean_loop [] cfs = []") (simp_all add: calculate_npv_def discount_factors_ok_iff)

lemma calculate_npv_errors:
  "calculate_npv cfs d = Inl e \<Longrightarrow> e = ZeroDivisionError \<or> e = OverflowError"
  using npv_loop_errors [of d 0 "Fin 0" "clean_loop [] cfs" e]
  by (cases "clean_loop [] cfs = []") (simp_all add: calculate_npv_def)

lemma calculate_npv_minus_one:
  "clean_loop [] cfs \<noteq> [] \<Longrightarrow> calculate_npv cfs (Fin (- 1)) = Inl ZeroDivisionError"
  using npv_loop_fails [of "clean_loop [] cfs" 0 "Fin 0"] by (simp add: calculate_npv_def)

lemma tax_shield_succeeds:
  "cost_of_debt \<noteq> Some (Fin (- 1)) \<Longrightarrow>
   \<exists>v. calculate_tax_shield debt tax_rate cost_of_debt = Inr v"
proof (cases cost_of_debt)
  case None
  then show ?thesis by (simp add: calculate_tax_shield_def split: option.splits)
next
  case (Some cod)
  assume "cost_of_debt \<noteq> Some (Fin (- 1))"
  with Some have "cod \<noteq> Fin (- 1)" by simp
  then have z: "pf_add (Fin 1) cod \<noteq> Fin 0" by (cases cod) auto
  show ?thesis
    using Some z
    by (auto simp: calculate_tax_shield_def pf_truediv_def split: option.splits)
qed



section \<open>The adapter's result\<close>

lemma get_financial_data_Inr:
  assumes "get_financial_data yf ticker = Inr snap"
  shows "fetch_statements yf ticker = Inr (balance_sheet snap, income_stmt snap, cashflow snap) \<and>
         extract_operating_cashflow (cashflow snap) = Inr (operating_cashflow snap) \<and>
         debt_loop (balance_sheet snap) (Fin 0) debt_labels = Inr (total_debt snap) \<and>
         extract_effective_tax_rate (income_stmt snap) = Inr (effective_tax_rate snap)"
  using assms
  by (auto simp: get_financial_data_def try_block_def split: sum.splits prod.splits)

lemma fetch_statements_Inr:
  assumes "fetch_statements yf ticker = Inr (bs, inc, cf)"
  shows "\<exists>stock. yf ticker = Inr stock \<and> get_balance_sheet stock = Inr bs \<and>
           get_financials stock = Inr inc \<and> get_cashflow stock = Inr cf"
  using assms by (auto simp: fetch_statements_def split: sum.splits)



lemma extract_operating_cashflow_total:
  "extract_operating_cashflow cf =
     Inr (case cf ''Operating Cash Flow'' of
            Some row \<Rightarrow> row
          | None \<Rightarrow>
              (case cf ''Total Cash From Operating Activities'' of
                 Some row \<Rightarrow> row
               | None \<Rightarrow> replicate 4 (Fin 0)))"
  by (simp add: extract_operating_cashflow_def in_index_def loc_def split: option.splits)

section \<open>The example provider, evaluated\<close>

lemma example_fetch:
  "fetch_statements example_provider ''ACME'' = Inr (example_balance, example_income, example_cashflow)"
  by (simp add: fetch_statements_def example_provider_def)

lemma example_ocf: "extract_operating_cashflow example_cashflow = Inr [Fin 120, Fin 100, NaN]"
  by (simp add: extract_operating_cashflow_def example_cashflow_def in_index_def loc_def)

lemma example_debt: "debt_loop example_balance (Fin 0) debt_labels = Inr (Fin 500)"
  by (simp add: debt_labels_def example_balance_def in_index_def loc_def iloc0_def)

lemma example_rate: "extract_effective_tax_rate example_income = Inr (Fin (21 / 100))"
  by (simp add: extract_effective_tax_rate_def example_income_def in_index_def loc_def iloc0_def
      pf_truediv_def)

lemma example_get: "get_financial_data example_provider ''ACME'' = Inr example_snapshot"
  by (simp add: get_financial_data_def try_block_def example_fetch example_ocf example_debt
      example_rate example_snapshot_def)


section \<open>Net present value\<close>

text \<open>
  C1. The claim that \<^verbatim>\<open>calculate_npv\<close> returns the discounted sum for every rate \<open>r\<close>
  with \<open>1 + r \<noteq> 0\<close> fails where a power \<open>(1 + r)^(t+1)\<close> leaves the range of a double:
  two cash flows at a rate of \<open>2^600\<close> raise \<^verbatim>\<open>OverflowError\<close>.
\<close>

theorem calculate_npv_formula_counterexample:
  "1 + (2 ^ 600 :: real) \<noteq> 0 \<and>
   calculate_npv [Some (Fin 1), Some (Fin 1)] (Fin (2 ^ 600)) = Inl OverflowError"
  by (simp add: calculate_npv_def pf_truediv_def overflow_threshold_def underflow_threshold_def)

text \<open>
  C1, as the code has it. The cleaning loop drops every missing or NaN entry and keeps
  the absolute value of each remaining entry, in order. For every series and every
  discount rate \<open>r\<close> such that each power \<open>(1 + r)^(t+1)\<close>, \<open>t\<close> a position of the cleaned
  series counted from zero, is computed without an exception and is not zero,
  \<^verbatim>\<open>calculate_npv\<close> returns the sum of the quotients \<open>|cf\<^sub>t| / (1 + r)^(t+1)\<close>, added to
  0.0 in the order of the series. When the cleaned series is empty it returns 0.0, for
  every discount rate, without failing.
\<close>

theorem calculate_npv_formula:
  assumes "discount_factors_ok discount_rate (length (clean_loop [] cash_flows))"
  shows "clean_loop [] cash_flows =
           map (\<lambda>c. pf_abs (the c)) (filter (\<lambda>c. c \<noteq> None \<and> c \<noteq> Some NaN) cash_flows) \<and>
         (\<exists>ps. length ps = length (clean_loop [] cash_flows) \<and>
            (\<forall>t<length (clean_loop [] cash_flows).
               pf_pow (pf_add (Fin 1) discount_rate) (t + 1) = Inr (ps ! t)) \<and>
            calculate_npv cash_flows discount_rate =
              Inr (foldl pf_add (Fin 0) (map2 pf_quot (clean_loop [] cash_flows) ps))) \<and>
         (clean_loop [] cash_flows = [] \<longrightarrow> (\<forall>d. calculate_npv cash_flows d = Inr (Fin 0)))"
proof (intro conjI impI allI)
  show "clean_loop [] cash_flows =
           map (\<lambda>c. pf_abs (the c)) (filter (\<lambda>c. c \<noteq> None \<and> c \<noteq> Some NaN) cash_flows)"
    by (rule clean_loop_filter)
next
  let ?xs = "clean_loop [] cash_flows"
  let ?ps = "map (\<lambda>t. projr (pf_pow (pf_add (Fin 1) discount_rate) (t + 1))) [0..<length ?xs]"
  have ok: "\<forall>t<length ?xs.
      pf_pow (pf_add (Fin 1) discount_rate) (t + 1) = Inr (?ps ! t) \<and> ?ps ! t \<noteq> Fin 0"
    using assms by (auto simp: discount_factors_ok_iff factor_ok_iff)
  have len: "length ?ps = length ?xs" by simp
  have "npv_loop discount_rate 0 (Fin 0) ?xs = Inr (foldl pf_add (Fin 0) (map2 pf_quot ?xs ?ps))"
    using npv_loop_fold [OF len, of discount_rate 0 "Fin 0"] ok by simp
  then have "calculate_npv cash_flows discount_rate =
      Inr (foldl pf_add (Fin 0) (map2 pf_quot ?xs ?ps))"
    by (cases "?xs = []") (simp_all add: calculate_npv_def Let_def)
  with ok len show "\<exists>ps. length ps = length ?xs \<and>
            (\<forall>t<length ?xs. pf_pow (pf_add (Fin 1) discount_rate) (t + 1) = Inr (ps ! t)) \<and>
            calculate_npv cash_flows discount_rate =
              Inr (foldl pf_add (Fin 0) (map2 pf_quot ?xs ps))"
    by blast
next
  fix d
  assume "clean_loop [] cash_flows = []"
  then show "calculate_npv cash_flows d = Inr (Fin 0)" by (simp add: calculate_npv_def)
qed

theorem calculate_npv_formula_witness:
  "discount_factors_ok (Fin 1) 2 \<and>
   clean_loop [] [Some (Fin 1000), None, Some NaN, Some (Fin (- 50))] = [Fin 1000, Fin 50] \<and>
   pf_pow (pf_add (Fin 1) (Fin 1)) 1 = Inr (Fin 2) \<and>
   pf_pow (pf_add (Fin 1) (Fin 1)) 2 = Inr (Fin 4) \<and>
   calculate_npv [Some (Fin 1000), None, Some NaN, Some (Fin (- 50))] (Fin 1) =
     Inr (pf_add (pf_add (Fin 0) (pf_quot (Fin 1000) (Fin 2))) (pf_quot (Fin 50) (Fin 4)))"
proof -
  let ?cfs = "[Some (Fin 1000), None, Some NaN, Some (Fin (- 50))]"
  have ok: "discount_factors_ok (Fin 1) 2"
    by (simp add: discount_factors_ok_def factor_ok_def upt_rec numeral_2_eq_2
        overflow_threshold_def underflow_threshold_def)
  have cl: "clean_loop [] ?cfs = [Fin 1000, Fin 50]"
    by simp
  have p1: "pf_pow (pf_add (Fin 1) (Fin 1)) 1 = Inr (Fin 2)"
    by (simp add: overflow_threshold_def underflow_threshold_def)
  have p2: "pf_pow (pf_add (Fin 1) (Fin 1)) 2 = Inr (Fin 4)"
    by (simp add: numeral_2_eq_2 overflow_threshold_def underflow_threshold_def)
  have hyp: "discount_factors_ok (Fin 1) (length (clean_loop [] ?cfs))"
    using ok by (simp add: numeral_2_eq_2)
  from calculate_npv_formula [OF hyp]
  obtain ps where len: "length ps = length (clean_loop [] ?cfs)"
    and pw: "\<forall>t<length (clean_loop [] ?cfs). pf_pow (pf_add (Fin 1) (Fin 1)) (t + 1) = Inr (ps ! t)"
    and res: "calculate_npv ?cfs (Fin 1) =
       Inr (foldl pf_add (Fin 0) (map2 pf_quot (clean_loop [] ?cfs) ps))"
    by blast
  from len obtain a b where ab: "ps = [a, b]"
    unfolding cl by (cases ps; cases "tl ps") auto
  have "pf_pow (pf_add (Fin 1) (Fin 1)) (0 + 1) = Inr (ps ! 0)"
    using pw [rule_format, of 0] unfolding cl by simp
  with p1 ab have a: "a = Fin 2" by simp
  have "pf_pow (pf_add (Fin 1) (Fin 1)) (1 + 1) = Inr (ps ! 1)"
    using pw [rule_format, of 1] unfolding cl by simp
  with p2 ab have b: "b = Fin 4" by (simp add: numeral_2_eq_2)
  have "calculate_npv ?cfs (Fin 1) =
     Inr (pf_add (pf_add (Fin 0) (pf_quot (Fin 1000) (Fin 2))) (pf_quot (Fin 50) (Fin 4)))"
    using res unfolding cl ab a b by simp
  with ok cl p1 p2 show ?thesis by blast
qed

section \<open>Tax shield\<close>

text \<open>
  C2. At a cost of debt of \<open>-1\<close>, with the debt and the tax rate present,
  \<^verbatim>\<open>calculate_tax_shield\<close> does not return \<open>debt * tax_rate * (1 - 1/(1 + cost_of_debt))\<close>:
  the guard of the function tests a cost of debt of zero, the divisor
  \<open>1 + cost_of_debt\<close> is zero at \<open>-1\<close>, and the call raises \<^verbatim>\<open>ZeroDivisionError\<close>.
\<close>

theorem tax_shield_raises_at_minus_one:
  "calculate_tax_shield (Some (Fin 1000)) (Some (Fin (1 / 4))) (Some (Fin (- 1))) =
     Inl ZeroDivisionError"
  by (simp add: calculate_tax_shield_def pf_truediv_def)

section \<open>The cleaned series\<close>

text \<open>
  C3. The claim that no infinite value survives the cleaning step fails: an infinite
  entry is neither \<^verbatim>\<open>None\<close> nor NaN, so its absolute value is kept.
\<close>

theorem cleaned_series_invariant_counterexample:
  "clean_loop [] [Some (Fin 3), Some PInf] = [Fin 3, PInf] \<and> \<not> is_finite PInf"
  by simp

text \<open>
  C3, as the code has it. The cleaned series holds the absolute values of the entries
  that are neither missing nor NaN, in order. If it is empty the engine returns zero;
  every element of it is a non-negative real or plus infinity, and it is a non-negative
  real whenever the series has no infinite entry.
\<close>

theorem cleaned_series_invariant:
  "clean_loop [] cash_flows =
     map (\<lambda>c. pf_abs (the c)) (filter (\<lambda>c. c \<noteq> None \<and> c \<noteq> Some NaN) cash_flows) \<and>
   (clean_loop [] cash_flows = [] \<longrightarrow> calculate_npv cash_flows discount_rate = Inr (Fin 0)) \<and>
   (\<forall>x \<in> set (clean_loop [] cash_flows). x = PInf \<or> (\<exists>v\<ge>0. x = Fin v)) \<and>
   ((\<forall>c \<in> set cash_flows. c \<noteq> Some PInf \<and> c \<noteq> Some NInf) \<longrightarrow>
      (\<forall>x \<in> set (clean_loop [] cash_flows). \<exists>v\<ge>0. x = Fin v))"
proof (intro conjI impI ballI)
  show "clean_loop [] cash_flows =
     map (\<lambda>c. pf_abs (the c)) (filter (\<lambda>c. c \<noteq> None \<and> c \<noteq> Some NaN) cash_flows)"
    by (rule clean_loop_filter)
next
  assume "clean_loop [] cash_flows = []"
  then show "calculate_npv cash_flows discount_rate = Inr (Fin 0)"
    by (simp add: calculate_npv_def)
next
  fix x assume "x \<in> set (clean_loop [] cash_flows)"
  then show "x = PInf \<or> (\<exists>v\<ge>0. x = Fin v)" by (rule clean_loop_range)
next
  fix x
  assume fin: "\<forall>c \<in> set cash_flows. c \<noteq> Some PInf \<and> c \<noteq> Some NInf"
    and x: "x \<in> set (clean_loop [] cash_flows)"
  from x clean_loop_spec_cleaned [OF fin] obtain v where "v \<in> set (spec_cleaned cash_flows)" "x = Fin v"
    by auto
  then show "\<exists>v\<ge>0. x = Fin v" using spec_cleaned_nonneg by blast
qed

theorem cleaned_series_invariant_witness:
  "clean_loop [] [Some (Fin (- 2)), None, Some NInf] = [Fin 2, PInf] \<and>
   calculate_npv [None, Some NaN] (Fin (- 1)) = Inr (Fin 0) \<and>
   list_all (\<lambda>x. \<exists>v\<ge>0. x = Fin v) (clean_loop [] [Some (Fin (- 2)), None, Some NaN])"
  using cleaned_series_invariant [of "[Some (Fin (- 2)), None, Some NaN]" "Fin (- 1)"]
    cleaned_series_invariant [of "[None, Some NaN]" "Fin (- 1)"]
  by simp

section \<open>Failures of the engine\<close>

text \<open>
  C4. The claim that a discount rate of \<open>-1\<close> is the only input on which
  \<^verbatim>\<open>calculate_npv\<close> fails does not hold: at the rate \<open>-1 + 2^-53\<close> the power
  \<open>(1 + r)^21\<close> rounds to 0.0, and a series of 21 cash flows raises
  \<^verbatim>\<open>ZeroDivisionError\<close>.
\<close>

theorem engine_failures_counterexample:
  "Fin (- 1 + 1 / 2 ^ 53) \<noteq> Fin (- 1) \<and>
   calculate_npv
     [Some (Fin 1), Some (Fin 1), Some (Fin 1), Some (Fin 1), Some (Fin 1), Some (Fin 1),
      Some (Fin 1), Some (Fin 1), Some (Fin 1), Some (Fin 1), Some (Fin 1), Some (Fin 1),
      Some (Fin 1), Some (Fin 1), Some (Fin 1), Some (Fin 1), Some (Fin 1), Some (Fin 1),
      Some (Fin 1), Some (Fin 1), Some (Fin 1)]
     (Fin (- 1 + 1 / 2 ^ 53)) = Inl ZeroDivisionError"
  by (simp add: calculate_npv_def pf_truediv_def overflow_threshold_def underflow_threshold_def)

text \<open>
  C4, as the code has it. \<^verbatim>\<open>calculate_npv\<close> with a discount rate of \<open>-1\<close> and a
  cleaned series that is not empty raises \<^verbatim>\<open>ZeroDivisionError\<close>. It returns a value
  exactly when every power \<open>(1 + r)^(t+1)\<close>, \<open>t\<close> a position of the cleaned series, is
  computed without an exception and is not zero, and otherwise raises
  \<^verbatim>\<open>ZeroDivisionError\<close> or \<^verbatim>\<open>OverflowError\<close>. \<^verbatim>\<open>calculate_tax_shield\<close> returns a value for
  every cost of debt other than \<open>-1\<close>. \<^verbatim>\<open>calculate_apv\<close> returns the sum of its
  arguments and \<^verbatim>\<open>sensitivity_analysis\<close> returns both of its lists. An empty series
  and an absent argument of the tax shield give 0.0.
\<close>

theorem engine_failures:
  "(discount_rate = Fin (- 1) \<and> clean_loop [] cash_flows \<noteq> [] \<longrightarrow>
      calculate_npv cash_flows discount_rate = Inl ZeroDivisionError) \<and>
   ((\<exists>v. calculate_npv cash_flows discount_rate = Inr v) \<longleftrightarrow>
      discount_factors_ok discount_rate (length (clean_loop [] cash_flows))) \<and>
   (calculate_npv cash_flows discount_rate = Inl e \<longrightarrow>
      e = ZeroDivisionError \<or> e = OverflowError) \<and>
   (cost_of_debt \<noteq> Some (Fin (- 1)) \<longrightarrow>
      (\<exists>v. calculate_tax_shield debt tax_rate cost_of_debt = Inr v)) \<and>
   calculate_apv npv tax_shield = pf_add npv tax_shield \<and>
   (\<exists>vals. sensitivity_analysis base_value variations ''values'' = Some vals \<and>
      length vals = length variations) \<and>
   sensitivity_analysis base_value variations ''variations'' = Some variations \<and>
   calculate_npv [] discount_rate = Inr (Fin 0) \<and>
   (debt = None \<or> tax_rate = None \<or> cost_of_debt = None \<longrightarrow>
      calculate_tax_shield debt tax_rate cost_of_debt = Inr (Fin 0))"
proof (intro conjI impI)
  assume "discount_rate = Fin (- 1) \<and> clean_loop [] cash_flows \<noteq> []"
  then show "calculate_npv cash_flows discount_rate = Inl ZeroDivisionError"
    by (simp add: calculate_npv_minus_one)
next
  show "(\<exists>v. calculate_npv cash_flows discount_rate = Inr v) \<longleftrightarrow>
      discount_factors_ok discount_rate (length (clean_loop [] cash_flows))"
    by (rule calculate_npv_Inr_iff)
next
  assume "calculate_npv cash_flows discount_rate = Inl e"
  then show "e = ZeroDivisionError \<or> e = OverflowError" by (rule calculate_npv_errors)
next
  assume "cost_of_debt \<noteq> Some (Fin (- 1))"
  then show "\<exists>v. calculate_tax_shield debt tax_rate cost_of_debt = Inr v"
    by (rule tax_shield_succeeds)
next
  show "calculate_apv npv tax_shield = pf_add npv tax_shield"
    by (simp add: calculate_apv_def)
next
  show "\<exists>vals. sensitivity_analysis base_value variations ''values'' = Some vals \<and>
      length vals = length variations"
    by (simp add: sensitivity_analysis_def)
next
  show "sensitivity_analysis base_value variations ''variations'' = Some variations"
    by (simp add: sensitivity_analysis_def)
next
  show "calculate_npv [] discount_rate = Inr (Fin 0)"
    by (simp add: calculate_npv_def)
next
  assume "debt = None \<or> tax_rate = None \<or> cost_of_debt = None"
  then show "calculate_tax_shield debt tax_rate cost_of_debt = Inr (Fin 0)"
    by (auto simp: calculate_tax_shield_def split: option.splits)
qed

theorem engine_failures_witness:
  "calculate_npv [Some (Fin 5), None] (Fin (- 1)) = Inl ZeroDivisionError \<and>
   discount_factors_ok (Fin 1) 1 \<and>
   (\<exists>v. calculate_npv [Some (Fin 5), None] (Fin 1) = Inr v) \<and>
   (\<exists>v. calculate_tax_shield (Some (Fin 5)) (Some (Fin 1)) (Some (Fin (- 2))) = Inr v) \<and>
   calculate_tax_shield (Some (Fin 5)) None (Some (Fin (- 1))) = Inr (Fin 0) \<and>
   calculate_apv (Fin 3) (Fin (- 4)) = Fin (- 1) \<and>
   calculate_npv [] (Fin (- 1)) = Inr (Fin 0)"
proof -
  have ok: "discount_factors_ok (Fin 1) 1"
    by (simp add: discount_factors_ok_def factor_ok_def
        overflow_threshold_def underflow_threshold_def)
  have cl: "clean_loop [] [Some (Fin 5), None] = [Fin 5]" by simp
  have a: "calculate_npv [Some (Fin 5), None] (Fin (- 1)) = Inl ZeroDivisionError"
    using engine_failures [of "Fin (- 1)" "[Some (Fin 5), None]"] cl by simp
  have b: "\<exists>v. calculate_npv [Some (Fin 5), None] (Fin 1) = Inr v"
    using engine_failures [of "Fin 1" "[Some (Fin 5), None]"] cl ok by simp
  have c: "\<exists>v. calculate_tax_shield (Some (Fin 5)) (Some (Fin 1)) (Some (Fin (- 2))) = Inr v"
    using engine_failures [where cost_of_debt = "Some (Fin (- 2))" and debt = "Some (Fin 5)"
        and tax_rate = "Some (Fin 1)"]
    by simp
  have d: "calculate_tax_shield (Some (Fin 5)) None (Some (Fin (- 1))) = Inr (Fin 0)"
    using engine_failures [where cost_of_debt = "Some (Fin (- 1))" and debt = "Some (Fin 5)"
        and tax_rate = None]
    by simp
  have e: "calculate_apv (Fin 3) (Fin (- 4)) = Fin (- 1)"
    using engine_failures [where npv = "Fin 3" and tax_shield = "Fin (- 4)"] by simp
  have f: "calculate_npv [] (Fin (- 1)) = Inr (Fin 0)"
    using engine_failures [where discount_rate = "Fin (- 1)"] by simp
  from a ok b c d e f show ?thesis by blast
qed

section \<open>Signs of the cash flows\<close>

text \<open>
  C5. For every cash-flow series, every discount rate and every set \<open>S\<close> of
  positions, negating the entries at the positions in \<open>S\<close> leaves the result of
  \<^verbatim>\<open>calculate_npv\<close> unchanged, also when that result is the exception.
\<close>

theorem calculate_npv_sign_invariant:
  "calculate_npv (negate_subset S cash_flows) discount_rate = calculate_npv cash_flows discount_rate"
  by (simp add: calculate_npv_def clean_loop_negate_subset)

theorem calculate_npv_sign_invariant_witness:
  "negate_subset {0, 2} [Some (Fin 100), Some (Fin (- 20)), Some (Fin 7), None] =
     [Some (Fin (- 100)), Some (Fin (- 20)), Some (Fin (- 7)), None] \<and>
   calculate_npv [Some (Fin (- 100)), Some (Fin (- 20)), Some (Fin (- 7)), None] (Fin (1 / 10)) =
     calculate_npv [Some (Fin 100), Some (Fin (- 20)), Some (Fin 7), None] (Fin (1 / 10))"
proof -
  have n: "negate_subset {0, 2} [Some (Fin 100), Some (Fin (- 20)), Some (Fin 7), None] =
     [Some (Fin (- 100)), Some (Fin (- 20)), Some (Fin (- 7)), None]"
    by (simp add: negate_subset_def enumerate_eq_zip upt_rec)
  show ?thesis
    using calculate_npv_sign_invariant
      [of "{0, 2}" "[Some (Fin 100), Some (Fin (- 20)), Some (Fin 7), None]" "Fin (1 / 10)"]
    unfolding n by simp
qed

section \<open>Sensitivity analysis\<close>

text \<open>
  C6. For every base value and every sequence of deltas, the result of
  \<^verbatim>\<open>sensitivity_analysis\<close> has exactly the keys \<^verbatim>\<open>variations\<close> and \<^verbatim>\<open>values\<close>; the first
  holds the input sequence unchanged, the second has the same length and holds
  \<open>base_value * (1 + v)\<close> at the position of each delta \<open>v\<close>, which for finite numbers
  is the real product.
\<close>

theorem sensitivity_analysis_values:
  fixes b :: real
  shows "sensitivity_analysis base_value variations ''variations'' = Some variations \<and>
     (\<exists>vals. sensitivity_analysis base_value variations ''values'' = Some vals \<and>
        length vals = length variations \<and>
        (\<forall>i<length variations.
           vals ! i = pf_mul base_value (pf_add (Fin 1) (variations ! i)))) \<and>
     dom (sensitivity_analysis base_value variations) = {''variations'', ''values''} \<and>
     sensitivity_analysis (Fin b) (map Fin deltas) ''values'' =
       Some (map (\<lambda>v. Fin (b * (1 + v))) deltas)"
  by (auto simp: sensitivity_analysis_def)

theorem sensitivity_analysis_values_witness:
  "sensitivity_analysis (Fin 100) [Fin (- 1 / 5), Fin (- 1 / 10), Fin 0, Fin (1 / 10), Fin (1 / 5)]
     ''values'' = Some [Fin 80, Fin 90, Fin 100, Fin 110, Fin 120] \<and>
   sensitivity_analysis (Fin 100) [Fin (- 1 / 5), Fin (- 1 / 10), Fin 0, Fin (1 / 10), Fin (1 / 5)]
     ''variations'' = Some [Fin (- 1 / 5), Fin (- 1 / 10), Fin 0, Fin (1 / 10), Fin (1 / 5)] \<and>
   sensitivity_analysis (Fin 100) [] ''values'' = Some []"
  using sensitivity_analysis_values [of "Fin 100" "map Fin [- 1 / 5, - 1 / 10, 0, 1 / 10, 1 / 5]"
      100 "[- 1 / 5, - 1 / 10, 0, 1 / 10, 1 / 5]"]
    sensitivity_analysis_values [of "Fin 100" "[]" 100 "[]"]
  by simp

section \<open>Failure of the fetch\<close>




section \<open>Effective tax rate\<close>

text \<open>
  C8. If the income statement lacks the row \<^verbatim>\<open>Income Tax Expense\<close> or the row
  \<^verbatim>\<open>Pretax Income\<close>, the effective tax rate is 0.25. If both rows exist, it is the tax
  expense of the most recent column divided by the pretax income of that column, and
  0.25 when that pretax income is zero. The snapshot returned by
  \<^verbatim>\<open>get_financial_data\<close> holds this rate for the income statement of the provider.
\<close>

theorem effective_tax_rate_rule:
  fixes a b :: real
  shows
  "(inc ''Income Tax Expense'' = None \<or> inc ''Pretax Income'' = None \<longrightarrow>
      extract_effective_tax_rate inc = Inr (Fin (1 / 4))) \<and>
   (inc ''Income Tax Expense'' = Some (tax_expense # older_tax) \<and>
    inc ''Pretax Income'' = Some (pretax_income # older_pretax) \<longrightarrow>
      extract_effective_tax_rate inc =
        Inr (if pretax_income = Fin 0 then Fin (1 / 4) else pf_quot tax_expense pretax_income)) \<and>
   (inc ''Income Tax Expense'' = Some (Fin a # older_tax) \<and>
    inc ''Pretax Income'' = Some (Fin b # older_pretax) \<and> b \<noteq> 0 \<longrightarrow>
      extract_effective_tax_rate inc = Inr (Fin (a / b))) \<and>
   (get_financial_data yf ticker = Inr snap \<longrightarrow>
      (\<exists>stock. yf ticker = Inr stock \<and> get_financials stock = Inr (income_stmt snap)) \<and>
      extract_effective_tax_rate (income_stmt snap) = Inr (effective_tax_rate snap))"
proof (intro conjI impI)
  assume "inc ''Income Tax Expense'' = None \<or> inc ''Pretax Income'' = None"
  then show "extract_effective_tax_rate inc = Inr (Fin (1 / 4))"
    by (auto simp: extract_effective_tax_rate_def in_index_def)
next
  assume "inc ''Income Tax Expense'' = Some (tax_expense # older_tax) \<and>
    inc ''Pretax Income'' = Some (pretax_income # older_pretax)"
  then show "extract_effective_tax_rate inc =
        Inr (if pretax_income = Fin 0 then Fin (1 / 4) else pf_quot tax_expense pretax_income)"
    by (simp add: extract_effective_tax_rate_def in_index_def loc_def iloc0_def pf_truediv_def)
next
  assume "inc ''Income Tax Expense'' = Some (Fin a # older_tax) \<and>
    inc ''Pretax Income'' = Some (Fin b # older_pretax) \<and> b \<noteq> 0"
  then show "extract_effective_tax_rate inc = Inr (Fin (a / b))"
    by (simp add: extract_effective_tax_rate_def in_index_def loc_def iloc0_def pf_truediv_def)
next
  assume g: "get_financial_data yf ticker = Inr snap"
  show "\<exists>stock. yf ticker = Inr stock \<and> get_financials stock = Inr (income_stmt snap)"
    using get_financial_data_Inr [OF g] fetch_statements_Inr by blast
next
  assume g: "get_financial_data yf ticker = Inr snap"
  show "extract_effective_tax_rate (income_stmt snap) = Inr (effective_tax_rate snap)"
    using get_financial_data_Inr [OF g] by simp
qed

theorem effective_tax_rate_rule_witness:
  "get_financial_data example_provider ''ACME'' = Inr example_snapshot \<and>
   effective_tax_rate example_snapshot = Fin (21 / 100) \<and>
   extract_effective_tax_rate example_income = Inr (Fin (21 / 100)) \<and>
   extract_effective_tax_rate example_income_zero = Inr (Fin (1 / 4)) \<and>
   extract_effective_tax_rate example_cashflow = Inr (Fin (1 / 4))"
proof -
  have a: "extract_effective_tax_rate example_income = Inr (Fin (21 / 100))"
    using effective_tax_rate_rule
      [where inc = example_income and a = 21 and b = 100 and older_tax = "[Fin 18]"
         and older_pretax = "[Fin 90]"]
    by (simp add: example_income_def)
  have b: "extract_effective_tax_rate example_income_zero = Inr (Fin (1 / 4))"
    using effective_tax_rate_rule
      [where inc = example_income_zero and tax_expense = "Fin 21" and pretax_income = "Fin 0"
         and older_tax = "[Fin 18]" and older_pretax = "[Fin 90]"]
    by (simp add: example_income_zero_def)
  have c: "extract_effective_tax_rate example_cashflow = Inr (Fin (1 / 4))"
    using effective_tax_rate_rule [where inc = example_cashflow]
    by (simp add: example_cashflow_def)
  have d: "effective_tax_rate example_snapshot = Fin (21 / 100)"
    by (simp add: example_snapshot_def)
  from a b c d example_get show ?thesis by simp
qed

section \<open>Operating cash flows\<close>

text \<open>
  C9. The operating cash flows are the row \<^verbatim>\<open>Operating Cash Flow\<close> of the cash-flow
  statement if it exists, otherwise the row \<^verbatim>\<open>Total Cash From Operating Activities\<close>
  if it exists, otherwise four zeros; the extraction never fails, and the snapshot
  returned by \<^verbatim>\<open>get_financial_data\<close> holds this series for the cash-flow statement of
  the provider.
\<close>

theorem operating_cashflow_fallback:
  "(cf ''Operating Cash Flow'' = Some row \<longrightarrow> extract_operating_cashflow cf = Inr row) \<and>
   (cf ''Operating Cash Flow'' = None \<and>
    cf ''Total Cash From Operating Activities'' = Some row \<longrightarrow>
      extract_operating_cashflow cf = Inr row) \<and>
   (cf ''Operating Cash Flow'' = None \<and> cf ''Total Cash From Operating Activities'' = None \<longrightarrow>
      extract_operating_cashflow cf = Inr [Fin 0, Fin 0, Fin 0, Fin 0]) \<and>
   (get_financial_data yf ticker = Inr snap \<longrightarrow>
      (\<exists>stock. yf ticker = Inr stock \<and> get_cashflow stock = Inr (cashflow snap)) \<and>
      extract_operating_cashflow (cashflow snap) = Inr (operating_cashflow snap))"
proof (intro conjI impI)
  assume "cf ''Operating Cash Flow'' = Some row"
  then show "extract_operating_cashflow cf = Inr row"
    by (simp add: extract_operating_cashflow_total)
next
  assume "cf ''Operating Cash Flow'' = None \<and>
    cf ''Total Cash From Operating Activities'' = Some row"
  then show "extract_operating_cashflow cf = Inr row"
    by (simp add: extract_operating_cashflow_total)
next
  assume "cf ''Operating Cash Flow'' = None \<and> cf ''Total Cash From Operating Activities'' = None"
  then show "extract_operating_cashflow cf = Inr [Fin 0, Fin 0, Fin 0, Fin 0]"
    by (simp add: extract_operating_cashflow_total numeral_eq_Suc)
next
  assume g: "get_financial_data yf ticker = Inr snap"
  show "\<exists>stock. yf ticker = Inr stock \<and> get_cashflow stock = Inr (cashflow snap)"
    using get_financial_data_Inr [OF g] fetch_statements_Inr by blast
next
  assume g: "get_financial_data yf ticker = Inr snap"
  show "extract_operating_cashflow (cashflow snap) = Inr (operating_cashflow snap)"
    using get_financial_data_Inr [OF g] by simp
qed

theorem operating_cashflow_fallback_witness:
  "get_financial_data example_provider ''ACME'' = Inr example_snapshot \<and>
   example_cashflow ''Operating Cash Flow'' = None \<and>
   example_cashflow ''Total Cash From Operating Activities'' = Some [Fin 120, Fin 100, NaN] \<and>
   operating_cashflow example_snapshot = [Fin 120, Fin 100, NaN] \<and>
   extract_operating_cashflow example_cashflow = Inr [Fin 120, Fin 100, NaN] \<and>
   extract_operating_cashflow example_balance = Inr [Fin 0, Fin 0, Fin 0, Fin 0]"
proof -
  have a: "extract_operating_cashflow example_cashflow = Inr [Fin 120, Fin 100, NaN]"
    using operating_cashflow_fallback [where cf = example_cashflow and row = "[Fin 120, Fin 100, NaN]"]
    by (simp add: example_cashflow_def)
  have b: "extract_operating_cashflow example_balance = Inr [Fin 0, Fin 0, Fin 0, Fin 0]"
    using operating_cashflow_fallback [where cf = example_balance]
    by (simp add: example_balance_def)
  have c: "example_cashflow ''Operating Cash Flow'' = None \<and>
   example_cashflow ''Total Cash From Operating Activities'' = Some [Fin 120, Fin 100, NaN]"
    by (simp add: example_cashflow_def)
  have d: "operating_cashflow example_snapshot = [Fin 120, Fin 100, NaN]"
    by (simp add: example_snapshot_def)
  from a b c d example_get show ?thesis by simp
qed

section \<open>Sign of the net present value\<close>




end
